theory Spec2Isabelle
  imports Complex_Main
begin

section \<open>Python values used by the tasks\<close>

text \<open>
  The tasks compute on Python floats (numpy float64). A float is modelled as a real
  number or the not-a-number value \<open>NaN\<close>, because \<open>np.mean\<close> of an empty slice is
  \<open>nan\<close> and every ordered comparison with \<open>nan\<close> is false. Rounding is not modelled:
  the arithmetic mean is exact. Python ints and bools that reach a numeric position are
  embedded as \<open>Fin\<close> values; Python's \<open>None\<close> is \<open>None\<close> of an option.
\<close>

datatype fl = NaN | Fin real

fun fl_gt :: "fl \<Rightarrow> fl \<Rightarrow> bool" where
  "fl_gt (Fin a) (Fin b) = (b < a)"
| "fl_gt _ _ = False"

fun fl_lt :: "fl \<Rightarrow> fl \<Rightarrow> bool" where
  "fl_lt (Fin a) (Fin b) = (a < b)"
| "fl_lt _ _ = False"

fun fl_abs :: "fl \<Rightarrow> fl" where
  "fl_abs (Fin a) = Fin \<bar>a\<bar>"
| "fl_abs NaN = NaN"

fun fl_neg :: "fl \<Rightarrow> fl" where
  "fl_neg (Fin a) = Fin (- a)"
| "fl_neg NaN = NaN"

text \<open>Truthiness of a number: zero is falsy, everything else (also \<open>nan\<close>) is truthy.\<close>

fun truthy :: "fl \<Rightarrow> bool" where
  "truthy (Fin a) = (a \<noteq> 0)"
| "truthy NaN = True"

fun truthy_opt :: "fl option \<Rightarrow> bool" where
  "truthy_opt None = False"
| "truthy_opt (Some x) = truthy x"

text \<open>\<^verbatim>\<open>v or d\<close>: the left operand when it is truthy, the default otherwise.\<close>

definition py_or :: "fl option \<Rightarrow> fl \<Rightarrow> fl" where
  "py_or v d = (case v of None \<Rightarrow> d | Some x \<Rightarrow> if truthy x then x else d)"

datatype py_exc = TypeError string | ValueError string | OtherError string

fun exc_str :: "py_exc \<Rightarrow> string" where
  "exc_str (TypeError m) = m"
| "exc_str (ValueError m) = m"
| "exc_str (OtherError m) = m"

text \<open>\<^verbatim>\<open>int(x)\<close> truncates towards zero and raises on \<open>nan\<close> and on \<open>None\<close>.\<close>

fun py_int :: "fl \<Rightarrow> py_exc + int" where
  "py_int NaN = Inl (ValueError ''cannot convert float NaN to integer'')"
| "py_int (Fin a) = Inr (if 0 \<le> a then \<lfloor>a\<rfloor> else \<lceil>a\<rceil>)"

fun py_int_opt :: "fl option \<Rightarrow> py_exc + int" where
  "py_int_opt None = Inl (TypeError ''int() argument must be a string, a bytes-like object or a real number, not NoneType'')"
| "py_int_opt (Some x) = py_int x"

fun fin_val :: "fl \<Rightarrow> real" where
  "fin_val (Fin a) = a"
| "fin_val NaN = 0"

text \<open>\<^verbatim>\<open>np.mean\<close>: \<open>nan\<close> on an empty array and on an array that holds a \<open>nan\<close>.\<close>

definition np_mean :: "fl list \<Rightarrow> fl" where
  "np_mean xs =
     (if xs = [] \<or> NaN \<in> set xs then NaN
      else Fin (sum_list (map fin_val xs) / real (length xs)))"

fun fl_max :: "fl \<Rightarrow> fl \<Rightarrow> fl" where
  "fl_max (Fin a) (Fin b) = Fin (max a b)"
| "fl_max _ _ = NaN"

text \<open>\<^verbatim>\<open>np.max\<close>: raises ValueError on an empty array, propagates \<open>nan\<close>.\<close>

fun np_max :: "fl list \<Rightarrow> py_exc + fl" where
  "np_max [] = Inl (ValueError ''zero-size array to reduction operation maximum which has no identity'')"
| "np_max (x # xs) = Inr (fold fl_max xs x)"

text \<open>
  \<^verbatim>\<open>xs[a:b]\<close>: a negative bound counts from the end, and both bounds are clipped to
  the array.
\<close>

definition slice_index :: "int \<Rightarrow> int \<Rightarrow> int" where
  "slice_index n i = (if i < 0 then max 0 (n + i) else min i n)"

definition py_slice :: "'a list \<Rightarrow> int \<Rightarrow> int \<Rightarrow> 'a list" where
  "py_slice xs a b =
     (let n = int (length xs); lo = slice_index n a; hi = slice_index n b
      in take (nat (hi - lo)) (drop (nat lo) xs))"

section \<open>The sliding-window buffers\<close>

text \<open>
  The three buffers of \<^verbatim>\<open>LaserSynchTask\<close> are Python lists updated by the same idiom
  (lines 127-129, 139-141, 147-149 of \<^verbatim>\<open>laser_synch_task.py\<close>):
  \<^verbatim>\<open>
      buf.append(v)
      if len(buf) > cap:
          buf.pop(0)
  \<close>
  \<open>pushes\<close> is that idiom repeated over a sequence of values, oldest first.
\<close>

definition push :: "int \<Rightarrow> 'a \<Rightarrow> 'a list \<Rightarrow> 'a list" where
  "push cap v buf = (let b = buf @ [v] in if cap < int (length b) then tl b else b)"


section \<open>The task framework\<close>

text \<open>
  Every task derives from \<^verbatim>\<open>TaskBase\<close> (module \<^verbatim>\<open>task_base\<close>, which is not among
  the sources). The tasks use its table of process variables, its status and message,
  its cycle counter and its logger. A log record is a level and the pieces of the
  formatted message.
\<close>

datatype log_level = Debug | Info | Warning | Error

datatype part = Txt string | Num fl

record task_base =
  pvs :: "string \<Rightarrow> fl option"
  status :: string
  message :: string
  cycle :: int
  logs :: "(log_level \<times> part list) list"

text \<open>
  Modelled from the spec: \<^verbatim>\<open>TaskBase.get_pv\<close>, the read side of the process-variable
  registry ("get/set by name"); a variable that holds nothing reads as absent (\<open>None\<close>).
\<close>

definition get_pv :: "'a task_base_scheme \<Rightarrow> string \<Rightarrow> fl option" where
  "get_pv s n = pvs s n"

text \<open>
  Modelled from the spec: \<^verbatim>\<open>TaskBase.set_pv\<close>, the write side of the registry; a read
  after a write returns the written value.
\<close>

definition set_pv :: "string \<Rightarrow> fl \<Rightarrow> 'a task_base_scheme \<Rightarrow> 'a task_base_scheme" where
  "set_pv n v s = s\<lparr>pvs := (pvs s)(n := Some v)\<rparr>"

text \<open>
  Modelled from the spec: \<^verbatim>\<open>TaskBase.set_status\<close>, an observability output; it stores
  the given status.
\<close>

definition set_status :: "string \<Rightarrow> 'a task_base_scheme \<Rightarrow> 'a task_base_scheme" where
  "set_status v s = s\<lparr>status := v\<rparr>"

text \<open>
  Modelled from the spec: \<^verbatim>\<open>TaskBase.set_message\<close>, an observability output; it stores
  the given message.
\<close>

definition set_message :: "string \<Rightarrow> 'a task_base_scheme \<Rightarrow> 'a task_base_scheme" where
  "set_message v s = s\<lparr>message := v\<rparr>"

text \<open>
  Modelled from the spec: \<^verbatim>\<open>TaskBase.get_cycle\<close>, the access to the monotonic cycle
  counter.
\<close>

definition get_cycle :: "'a task_base_scheme \<Rightarrow> int" where
  "get_cycle s = cycle s"

text \<open>
  Modelled from the spec: \<^verbatim>\<open>TaskBase.step_cycle\<close>, the advance of the cycle counter; one
  call adds one.
\<close>

definition step_cycle :: "'a task_base_scheme \<Rightarrow> 'a task_base_scheme" where
  "step_cycle s = s\<lparr>cycle := cycle s + 1\<rparr>"

text \<open>
  Modelled from the spec: the logger of \<^verbatim>\<open>TaskBase\<close>; \<^verbatim>\<open>self.logger.<level>(msg)\<close>
  appends a record to the log.
\<close>

definition logger :: "log_level \<Rightarrow> part list \<Rightarrow> 'a task_base_scheme \<Rightarrow> 'a task_base_scheme" where
  "logger lv msg s = s\<lparr>logs := logs s @ [(lv, msg)]\<rparr>"

text \<open>
  Other clients of the registry (operators, other tasks) write process variables between
  two iterations of a task's loop; a write of \<open>None\<close> clears the variable.
\<close>

definition client_writes ::
  "(string \<times> fl option) list \<Rightarrow> 'a task_base_scheme \<Rightarrow> 'a task_base_scheme" where
  "client_writes ws s = fold (\<lambda>w t. t\<lparr>pvs := (pvs t)(fst w := snd w)\<rparr>) ws s"

section \<open>The laser synchronisation task\<close>

subsection \<open>Configuration, state and inputs\<close>

text \<open>
  The parameters read by \<^verbatim>\<open>initialize\<close> (\<^verbatim>\<open>loop_period\<close> only sets the length of the
  sleep between two iterations). An empty prefix or name disables the feature.
\<close>

record laser_cfg =
  loop_period :: real
  avg_num :: int
  interlock_buff_length :: int
  prefix_redpitaya :: string
  prefix_motor :: string
  pv_laser_amp_llrf :: string

text \<open>
  A \<^verbatim>\<open>caput(name, v)\<close> is recorded in the order of issue; its argument is an int, a
  string literal, or \<^verbatim>\<open>str(x)\<close> of a float. \<^verbatim>\<open>caput\<close> itself is taken not to raise.
\<close>

datatype caput_arg = CInt int | CStr string | CStrOf fl

record laser_state = task_base +
  corr_buff :: "fl list"
  err_buff :: "fl list"
  laser_amp_buff :: "fl list"
  caputs :: "(string \<times> caput_arg) list"

text \<open>
  A \<^verbatim>\<open>caget\<close> raises, or returns \<open>None\<close> (the variable could not be read) or a value.
  One cycle makes at most four reads.
\<close>

datatype 'a caget = CaRaise py_exc | CaGot "'a option"

record cycle_in =
  pll_status_in :: "fl caget"
  wave_corr_in :: "fl list caget"
  laser_amp_in :: "fl caget"
  wave_err_in :: "fl list caget"

definition emit_caput :: "string \<Rightarrow> caput_arg \<Rightarrow> laser_state \<Rightarrow> laser_state" where
  "emit_caput n v s = s\<lparr>caputs := caputs s @ [(n, v)]\<rparr>"

subsection \<open>initialize\<close>

definition init_redpitaya :: "laser_cfg \<Rightarrow> laser_state \<Rightarrow> laser_state" where
  "init_redpitaya cfg s =
     logger Info [Txt ''RedPitaya initialized'']
       (fold (\<lambda>c t. emit_caput (prefix_redpitaya cfg @ fst c) (CStr (snd c)) t)
          [('':RESET_ACQ_CMD'', ''1''), ('':ACQ_TRIGGER_SRC_CMD'', ''NOW''),
           ('':IN2_GAIN_CMD'', ''High''), ('':ACQ_AVERAGING_CMD'', ''Off''),
           ('':DIGITAL_P4_DIR_CMD'', ''1''), ('':DIGITAL_P4_STATE_CMD'', ''0''),
           ('':OUT1_FREQ_SP'', ''0''), ('':OUT1_ENABLE_CMD'', ''1'')] s)"

definition init_motor :: "laser_cfg \<Rightarrow> laser_state \<Rightarrow> laser_state" where
  "init_motor cfg s =
     logger Info [Txt ''Motor initialized'']
       (emit_caput (prefix_motor cfg @ '':m0.HLM'') (CStr ''2.6'') s)"

definition initialize :: "laser_cfg \<Rightarrow> laser_state \<Rightarrow> laser_state" where
  "initialize cfg s =
     (let s0 = logger Info [Txt ''Initializing laser synch task''] s;
          s1 = s0\<lparr>corr_buff := [], err_buff := [], laser_amp_buff := []\<rparr>;
          s2 = (if prefix_redpitaya cfg \<noteq> [] then init_redpitaya cfg s1 else s1);
          s3 = (if prefix_motor cfg \<noteq> [] then init_motor cfg s2 else s2)
      in logger Info [Txt ''Average number: '', Num (Fin (of_int (avg_num cfg)))]
           (logger Info [Txt ''Loop period: '', Num (Fin (loop_period cfg)), Txt '' s''] s3))"

subsection \<open>One control cycle, statement by statement\<close>

text \<open>
  Lines 99-105: the PLL status is read only when a RedPitaya prefix is configured;
  \<^verbatim>\<open>int(pll_on)\<close> raises when the read returned \<open>None\<close>. Afterwards only the truth
  value of \<^verbatim>\<open>pll_on\<close> is used.
\<close>

definition read_pll :: "laser_cfg \<Rightarrow> cycle_in \<Rightarrow> laser_state \<Rightarrow> py_exc + (bool \<times> laser_state)" where
  "read_pll cfg i s =
     (case (if prefix_redpitaya cfg \<noteq> [] then pll_status_in i else CaGot (Some (Fin 0))) of
        CaRaise e \<Rightarrow> Inl e
      | CaGot v \<Rightarrow>
          (case py_int_opt v of
             Inl e \<Rightarrow> Inl e
           | Inr n \<Rightarrow> Inr (truthy_opt v, set_pv ''PLL_ON'' (Fin (of_int n)) s)))"

text \<open>Lines 107-111: the average reset.\<close>

definition avg_reset :: "laser_state \<Rightarrow> laser_state" where
  "avg_reset s =
     (if truthy_opt (get_pv s ''AVG_RESET'')
      then logger Info [Txt ''Average buffer reset'']
             (set_pv ''AVG_RESET'' (Fin 0) (s\<lparr>corr_buff := []\<rparr>))
      else s)"

text \<open>Lines 113-133: the correction waveform, its mean over the range, the window.\<close>

definition acquire_corr :: "laser_cfg \<Rightarrow> cycle_in \<Rightarrow> laser_state \<Rightarrow> py_exc option \<times> laser_state" where
  "acquire_corr cfg i s =
     (if prefix_redpitaya cfg \<noteq> [] then
        (let s1 = emit_caput (prefix_redpitaya cfg @ '':START_SS_ACQ_CMD'') (CInt 1) s in
         case wave_corr_in i of
           CaRaise e \<Rightarrow> (Some e, s1)
         | CaGot None \<Rightarrow> (None, s1)
         | CaGot (Some w) \<Rightarrow>
             (case py_int (py_or (get_pv s1 ''AVG_START'') (Fin 0)) of
                Inl e \<Rightarrow> (Some e, s1)
              | Inr avg_start \<Rightarrow>
                  (case py_int (py_or (get_pv s1 ''AVG_STOP'') (Fin (real (length w)))) of
                     Inl e \<Rightarrow> (Some e, s1)
                   | Inr avg_stop \<Rightarrow>
                       (let corr_value = np_mean (py_slice w avg_start (avg_stop + 1));
                            s2 = set_pv ''CORR'' corr_value s1;
                            s3 = s2\<lparr>corr_buff := push (avg_num cfg) corr_value (corr_buff s2)\<rparr>;
                            corr_avg = np_mean (corr_buff s3)
                        in (None, set_pv ''CORR_AVG'' corr_avg s3)))))
      else (None, s))"

text \<open>Lines 135-141: the laser amplitude buffer.\<close>

definition update_amp :: "laser_cfg \<Rightarrow> cycle_in \<Rightarrow> laser_state \<Rightarrow> py_exc option \<times> laser_state" where
  "update_amp cfg i s =
     (if pv_laser_amp_llrf cfg \<noteq> [] then
        (case laser_amp_in i of
           CaRaise e \<Rightarrow> (Some e, s)
         | CaGot None \<Rightarrow> (None, s)
         | CaGot (Some a) \<Rightarrow>
             (None, s\<lparr>laser_amp_buff := push (interlock_buff_length cfg) a (laser_amp_buff s)\<rparr>))
      else (None, s))"

text \<open>Lines 143-149: the error buffer takes the maximum of the error waveform.\<close>

definition update_err :: "laser_cfg \<Rightarrow> cycle_in \<Rightarrow> laser_state \<Rightarrow> py_exc option \<times> laser_state" where
  "update_err cfg i s =
     (if prefix_redpitaya cfg \<noteq> [] then
        (case wave_err_in i of
           CaRaise e \<Rightarrow> (Some e, s)
         | CaGot None \<Rightarrow> (None, s)
         | CaGot (Some w) \<Rightarrow>
             (case np_max w of
                Inl e \<Rightarrow> (Some e, s)
              | Inr m \<Rightarrow> (None, s\<lparr>err_buff := push (interlock_buff_length cfg) m (err_buff s)\<rparr>)))
      else (None, s))"

text \<open>
  Lines 151-163: the interlock. The thresholds are read with a default
  (\<^verbatim>\<open>get_pv(..) or 1.0\<close>), the violations are counted, and the PLL is switched off when
  a count equals the configured buffer length. The result is the new truth value of
  \<^verbatim>\<open>pll_on\<close>.
\<close>

definition pll_err_tsh :: "laser_state \<Rightarrow> fl" where
  "pll_err_tsh s = py_or (get_pv s ''PLL_ERR_TSH'') (Fin 1)"

definition laser_amp_tsh :: "laser_state \<Rightarrow> fl" where
  "laser_amp_tsh s = py_or (get_pv s ''LASER_AMP_TSH'') (Fin 0)"

definition err_count :: "laser_state \<Rightarrow> nat" where
  "err_count s = length (filter (\<lambda>e. fl_gt e (pll_err_tsh s)) (err_buff s))"

definition amp_count :: "laser_state \<Rightarrow> nat" where
  "amp_count s = length (filter (\<lambda>a. fl_lt a (laser_amp_tsh s)) (laser_amp_buff s))"

definition pll_off :: "laser_cfg \<Rightarrow> laser_state \<Rightarrow> laser_state" where
  "pll_off cfg s =
     logger Warning [Txt ''Interlock triggered - PLL turned OFF'']
       (if prefix_redpitaya cfg \<noteq> []
        then emit_caput (prefix_redpitaya cfg @ '':DIGITAL_P4_STATE_CMD'') (CStr ''0'') s
        else s)"

definition interlock :: "laser_cfg \<Rightarrow> bool \<Rightarrow> laser_state \<Rightarrow> bool \<times> laser_state" where
  "interlock cfg pll_on s =
     (if pll_on then
        (if int (err_count s) = interlock_buff_length cfg
            \<or> int (amp_count s) = interlock_buff_length cfg
         then (False, pll_off cfg s)
         else (True, s))
      else (False, s))"

text \<open>
  Lines 165-182: tracking is switched off when the PLL is off; when it is on, the motor
  is moved by one step if the averaged correction is outside the dead band and a motor
  prefix is configured. The cycle ends with the status message.
\<close>

definition corr_avg_of :: "laser_state \<Rightarrow> fl" where
  "corr_avg_of s = py_or (get_pv s ''CORR_AVG'') (Fin 0)"

definition tracking_tsh :: "laser_state \<Rightarrow> fl" where
  "tracking_tsh s = py_or (get_pv s ''TRACKING_TSH'') (Fin (1 / 10))"

definition tracking_step :: "laser_state \<Rightarrow> fl" where
  "tracking_step s = py_or (get_pv s ''TRACKING_STEP'') (Fin (1 / 100))"

definition motor_step :: "laser_state \<Rightarrow> fl" where
  "motor_step s =
     (if fl_gt (corr_avg_of s) (Fin 0) then tracking_step s else fl_neg (tracking_step s))"

definition tracking :: "laser_cfg \<Rightarrow> bool \<Rightarrow> laser_state \<Rightarrow> laser_state" where
  "tracking cfg pll_on s =
     (let s1 = (if \<not> pll_on then set_pv ''TRACKING_ON'' (Fin 0) s else s);
          tracking_on = truthy_opt (get_pv s1 ''TRACKING_ON'');
          s2 = (if tracking_on then
                  (if fl_gt (fl_abs (corr_avg_of s1)) (tracking_tsh s1) \<and> prefix_motor cfg \<noteq> []
                   then logger Debug [Txt ''Tracking: moving motor by '', Num (motor_step s1)]
                          (emit_caput (prefix_motor cfg @ '':m0.RLV'') (CStrOf (motor_step s1)) s1)
                   else s1)
                else s1)
      in set_message (''PLL:'' @ (if pll_on then ''ON'' else ''OFF'')
                      @ '' Track:'' @ (if tracking_on then ''ON'' else ''OFF'')) s2)"

text \<open>
  \<^verbatim>\<open>_process_cycle\<close>: the statements in order. An exception leaves the method at
  once; what was written before it stays written, so the state at the point of the
  exception is returned with it. \<open>acquire\<close> is the first part of the method (lines
  99-149: the reads and the buffer updates); it returns the exception if one was raised,
  the truth value of \<^verbatim>\<open>pll_on\<close> and the state reached.
\<close>

definition acquire :: "laser_cfg \<Rightarrow> cycle_in \<Rightarrow> laser_state \<Rightarrow> py_exc option \<times> bool \<times> laser_state" where
  "acquire cfg i s =
     (case read_pll cfg i s of
        Inl e \<Rightarrow> (Some e, False, s)
      | Inr (pll_on, s1) \<Rightarrow>
          (case acquire_corr cfg i (avg_reset s1) of
             (Some e, s2) \<Rightarrow> (Some e, pll_on, s2)
           | (None, s2) \<Rightarrow>
               (case update_amp cfg i s2 of
                  (Some e, s3) \<Rightarrow> (Some e, pll_on, s3)
                | (None, s3) \<Rightarrow>
                    (case update_err cfg i s3 of
                       (r, s4) \<Rightarrow> (r, pll_on, s4)))))"

definition process_cycle :: "laser_cfg \<Rightarrow> cycle_in \<Rightarrow> laser_state \<Rightarrow> py_exc option \<times> laser_state" where
  "process_cycle cfg i s =
     (case acquire cfg i s of
        (Some e, pll_on, s') \<Rightarrow> (Some e, s')
      | (None, pll_on, s4) \<Rightarrow>
          (case interlock cfg pll_on s4 of
             (pll_on', s5) \<Rightarrow> (None, tracking cfg pll_on' s5)))"

subsection \<open>The loop of run\<close>

text \<open>
  Lines 79-95, one iteration of \<^verbatim>\<open>while self.running\<close>: a disabled task skips the
  cycle; otherwise the cycle runs inside \<^verbatim>\<open>try\<close>, the counter is stepped after a cycle
  that returned, and an exception is logged and reported as status and message. Both
  paths reach the sleep and the next test of \<^verbatim>\<open>self.running\<close>.
\<close>

definition run_iteration :: "laser_cfg \<Rightarrow> cycle_in \<Rightarrow> laser_state \<Rightarrow> laser_state" where
  "run_iteration cfg i s =
     (if \<not> truthy_opt (get_pv s ''ENABLE'')
      then logger Debug [Txt ''Task disabled, skipping cycle''] s
      else (case process_cycle cfg i s of
              (None, s') \<Rightarrow> step_cycle s'
            | (Some e, s') \<Rightarrow>
                set_message (''Error: '' @ exc_str e)
                  (set_status ''ERROR''
                     (logger Error [Txt ''Error in processing cycle: '', Txt (exc_str e)] s'))))"

text \<open>
  The loop runs as long as \<^verbatim>\<open>self.running\<close> holds, which the framework clears on a
  stop request. The environment is the list of what each iteration meets while the flag
  holds: the writes other clients made since the last iteration and the results of the
  reads; the loop is left when the list is used up.
\<close>

fun run :: "laser_cfg \<Rightarrow> ((string \<times> fl option) list \<times> cycle_in) list \<Rightarrow> laser_state \<Rightarrow> laser_state" where
  "run cfg [] s = s"
| "run cfg (x # xs) s = run cfg xs (run_iteration cfg (snd x) (client_writes (fst x) s))"

subsection \<open>Observations on cycles and runs\<close>

text \<open>
  Both interlock buffers are within the configured length. This holds after
  \<^verbatim>\<open>initialize\<close> and is kept by every cycle.
\<close>

definition buffers_within :: "laser_cfg \<Rightarrow> laser_state \<Rightarrow> bool" where
  "buffers_within cfg s \<longleftrightarrow>
     int (length (err_buff s)) \<le> interlock_buff_length cfg
     \<and> int (length (laser_amp_buff s)) \<le> interlock_buff_length cfg"



text \<open>The cycle switched the PLL off: it reached the interlock with the PLL on and left it off.\<close>

definition tripped :: "laser_cfg \<Rightarrow> cycle_in \<Rightarrow> laser_state \<Rightarrow> bool" where
  "tripped cfg i s =
     (case acquire cfg i s of
        (None, pll_on, s4) \<Rightarrow> pll_on \<and> \<not> fst (interlock cfg pll_on s4)
      | (Some e, pll_on, s4) \<Rightarrow> False)"

text \<open>
  The error read of a cycle cannot return normally: the \<^verbatim>\<open>caget\<close> raises, or the
  waveform is empty and \<^verbatim>\<open>np.max\<close> raises. (The error read comes last, after the two
  other buffers were updated.)
\<close>

definition err_read_raises :: "laser_cfg \<Rightarrow> cycle_in \<Rightarrow> bool" where
  "err_read_raises cfg i \<longleftrightarrow>
     prefix_redpitaya cfg \<noteq> []
     \<and> (case wave_err_in i of
          CaRaise e \<Rightarrow> True
        | CaGot None \<Rightarrow> False
        | CaGot (Some w) \<Rightarrow> w = [])"





section \<open>The motor movement task\<close>

text \<open>
  \<^verbatim>\<open>CheckMotorMovement\<close> keeps the switch-off devices found by \<^verbatim>\<open>initialize\<close> in a
  dict, iterated in insertion order. Of a device only \<^verbatim>\<open>set\<close> is used: it raises or it
  does not. Every call \<^verbatim>\<open>sw.set(0)\<close> is recorded with the device name.
\<close>

record motor_state = task_base +
  switches :: "(string \<times> py_exc option) list"
  switch_sets :: "(string \<times> int) list"

text \<open>Lines 73-77: the body of the loop over the switch-off devices.\<close>

definition set_switch :: "string \<times> py_exc option \<Rightarrow> motor_state \<Rightarrow> motor_state" where
  "set_switch sw s =
     (let s1 = s\<lparr>switch_sets := switch_sets s @ [(fst sw, 0)]\<rparr> in
      case snd sw of
        None \<Rightarrow> logger Info [Txt ''Switchoff device '', Txt (fst sw),
                              Txt '' set to 0 (CLOSE) due to motor movement.''] s1
      | Some e \<Rightarrow> logger Error [Txt ''Error setting switchoff device '', Txt (fst sw),
                                Txt '': '', Txt (exc_str e)] s1)"

text \<open>
  Lines 65-77, \<^verbatim>\<open>motor_moved_callback\<close>; the position enters only through its
  \<^verbatim>\<open>str()\<close> in the log message.
\<close>

definition motor_moved_callback :: "string \<Rightarrow> string \<Rightarrow> motor_state \<Rightarrow> motor_state" where
  "motor_moved_callback motor_name position s =
     (if 10 < get_cycle s then
        (let s1 = logger Info [Txt ''Motor '', Txt motor_name,
                               Txt '' moved to position '', Txt position] s
         in if \<not> truthy_opt (get_pv s1 ''ENABLE'') then s1
            else fold set_switch (switches s1) s1)
      else s)"

section \<open>Concrete configurations, states and inputs\<close>

text \<open>
  A task with a RedPitaya, a motor and an amplitude signal, windows of two samples for
  the interlock and three for the average.
\<close>

definition ex_cfg :: laser_cfg where
  "ex_cfg = \<lparr>loop_period = 1 / 5, avg_num = 3, interlock_buff_length = 2,
     prefix_redpitaya = ''RP'', prefix_motor = ''MOT'', pv_laser_amp_llrf = ''AMP''\<rparr>"

text \<open>The task is enabled, tracking is on, and one error sample of 2.0 was taken before.\<close>

definition ex_state :: laser_state where
  "ex_state = \<lparr>pvs = (\<lambda>n. None)(''ENABLE'' := Some (Fin 1), ''TRACKING_ON'' := Some (Fin 1)),
     status = ''RUN'', message = [], cycle = 0, logs = [],
     corr_buff = [], err_buff = [Fin 2], laser_amp_buff = [], caputs = []\<rparr>"

text \<open>
  The subsystem reports itself active, the correction waveform and the amplitude are not
  available, and the error waveform has its maximum at 3.0 (over the default threshold
  1.0) or at 0.5 (under it).
\<close>

definition ex_in_high :: cycle_in where
  "ex_in_high = \<lparr>pll_status_in = CaGot (Some (Fin 1)), wave_corr_in = CaGot None,
     laser_amp_in = CaGot None, wave_err_in = CaGot (Some [Fin (3 / 2), Fin 3])\<rparr>"

definition ex_in_low :: cycle_in where
  "ex_in_low = \<lparr>pll_status_in = CaGot (Some (Fin 1)), wave_corr_in = CaGot None,
     laser_amp_in = CaGot None, wave_err_in = CaGot (Some [Fin (1 / 2), Fin (1 / 4)])\<rparr>"

text \<open>The state \<open>ex_state\<close> at line 151 of the cycle on \<open>ex_in_high\<close>.\<close>

definition ex_state_high :: laser_state where
  "ex_state_high = ex_state\<lparr>pvs := (pvs ex_state)(''PLL_ON'' := Some (Fin 1)),
     err_buff := [Fin 2, Fin 3],
     caputs := [(''RP:START_SS_ACQ_CMD'', CInt 1)]\<rparr>"

text \<open>The same task without a motor, and a state whose averaged correction is 5.0.\<close>

definition ex_cfg_no_motor :: laser_cfg where
  "ex_cfg_no_motor = ex_cfg\<lparr>prefix_motor := []\<rparr>"

definition ex_state_corr :: laser_state where
  "ex_state_corr = ex_state\<lparr>pvs := (pvs ex_state)(''CORR_AVG'' := Some (Fin 5))\<rparr>"

text \<open>
  Inputs of failing cycles: the first read (PLL status) raises; the last read (error
  waveform) raises after the correction waveform and the amplitude were read.
\<close>

definition ex_in_pll_raise :: cycle_in where
  "ex_in_pll_raise = ex_in_high\<lparr>pll_status_in := CaRaise (OtherError ''timeout'')\<rparr>"

definition ex_in_err_raise :: cycle_in where
  "ex_in_err_raise = \<lparr>pll_status_in = CaGot (Some (Fin 1)),
     wave_corr_in = CaGot (Some [Fin 1, Fin 3]), laser_amp_in = CaGot (Some (Fin 5)),
     wave_err_in = CaRaise (OtherError ''timeout'')\<rparr>"

text \<open>
  The state after the cycle on \<open>ex_in_high\<close> from \<open>ex_state\<close>, and an input in which the
  subsystem reports itself off.
\<close>

definition ex_state_tripped :: laser_state where
  "ex_state_tripped = ex_state_high\<lparr>
     pvs := (pvs ex_state_high)(''TRACKING_ON'' := Some (Fin 0)),
     message := ''PLL:OFF Track:OFF'',
     logs := [(Warning, [Txt ''Interlock triggered - PLL turned OFF''])],
     caputs := [(''RP:START_SS_ACQ_CMD'', CInt 1), (''RP:DIGITAL_P4_STATE_CMD'', CStr ''0'')]\<rparr>"


text \<open>
  A motor task that is enabled, has one switch-off device whose \<^verbatim>\<open>set\<close> succeeds, and
  has counted no cycle yet.
\<close>

definition ex_motor_state :: motor_state where
  "ex_motor_state = \<lparr>pvs = (\<lambda>n. None)(''ENABLE'' := Some (Fin 1)),
     status = ''RUN'', message = [], cycle = 0, logs = [],
     switches = [(''shutter'', None)], switch_sets = []\<rparr>"

text \<open>
  A state whose averaged correction is exactly the default dead band, and an input with
  an amplitude but no error waveform.
\<close>

definition ex_state_edge :: laser_state where
  "ex_state_edge = ex_state\<lparr>pvs := (pvs ex_state)(''CORR_AVG'' := Some (Fin (1 / 10)))\<rparr>"

definition ex_in_amp_only :: cycle_in where
  "ex_in_amp_only = \<lparr>pll_status_in = CaGot (Some (Fin 1)), wave_corr_in = CaGot None,
     laser_amp_in = CaGot (Some (Fin 5)), wave_err_in = CaGot None\<rparr>"

section \<open>Properties of the sliding window\<close>

lemma length_push:
  "int (length buf) \<le> cap \<Longrightarrow> int (length (push cap v buf)) \<le> cap"
  by (auto simp: push_def Let_def)





section \<open>The phases of a cycle and the interlock buffers\<close>


lemma acquire_corr_buffers [simp]:
  "err_buff (snd (acquire_corr cfg i s)) = err_buff s"
  "laser_amp_buff (snd (acquire_corr cfg i s)) = laser_amp_buff s"
  by (auto simp: acquire_corr_def Let_def set_pv_def emit_caput_def
      split: caget.splits option.splits sum.splits)

lemma avg_reset_buffers [simp]:
  "err_buff (avg_reset s) = err_buff s"
  "laser_amp_buff (avg_reset s) = laser_amp_buff s"
  by (auto simp: avg_reset_def set_pv_def logger_def)

lemma read_pll_buffers:
  "read_pll cfg i s = Inr (p, s1) \<Longrightarrow>
    err_buff s1 = err_buff s \<and> laser_amp_buff s1 = laser_amp_buff s \<and> corr_buff s1 = corr_buff s"
  by (auto simp: read_pll_def set_pv_def split: caget.splits sum.splits if_splits)

lemma read_pll_on_prefix:
  "read_pll cfg i s = Inr (True, s1) \<Longrightarrow> prefix_redpitaya cfg \<noteq> []"
  by (auto simp: read_pll_def split: caget.splits sum.splits if_splits)

lemma update_amp_buffers:
  "err_buff (snd (update_amp cfg i s)) = err_buff s"
  "int (length (laser_amp_buff s)) \<le> interlock_buff_length cfg \<Longrightarrow>
   int (length (laser_amp_buff (snd (update_amp cfg i s)))) \<le> interlock_buff_length cfg"
  by (auto simp: update_amp_def length_push split: caget.splits option.splits)

lemma update_err_buffers:
  "laser_amp_buff (snd (update_err cfg i s)) = laser_amp_buff s"
  "int (length (err_buff s)) \<le> interlock_buff_length cfg \<Longrightarrow>
   int (length (err_buff (snd (update_err cfg i s)))) \<le> interlock_buff_length cfg"
  by (auto simp: update_err_def length_push split: caget.splits option.splits sum.splits)

lemma acquire_cases:
  assumes "acquire cfg i s = (r, p, s')"
  obtains (pll) e where "read_pll cfg i s = Inl e" "r = Some e" "s' = s" "\<not> p"
  | (corr) s1 e where "read_pll cfg i s = Inr (p, s1)"
      "acquire_corr cfg i (avg_reset s1) = (Some e, s')" "r = Some e"
  | (amp) s1 s2 e where "read_pll cfg i s = Inr (p, s1)"
      "acquire_corr cfg i (avg_reset s1) = (None, s2)"
      "update_amp cfg i s2 = (Some e, s')" "r = Some e"
  | (err) s1 s2 s3 where "read_pll cfg i s = Inr (p, s1)"
      "acquire_corr cfg i (avg_reset s1) = (None, s2)"
      "update_amp cfg i s2 = (None, s3)"
      "update_err cfg i s3 = (r, s')"
  using assms unfolding acquire_def
  by (auto split: sum.splits prod.splits option.splits)

lemma acquire_buffers_within:
  assumes "acquire cfg i s = (r, p, s')" and "buffers_within cfg s"
  shows "buffers_within cfg s'"
  using assms(1)
proof (cases rule: acquire_cases)
  case (pll e)
  with assms(2) show ?thesis by simp
next
  case (corr s1 e)
  from read_pll_buffers [OF corr(1)] acquire_corr_buffers [where cfg = cfg and i = i and s = "avg_reset s1"] corr(2) assms(2)
  show ?thesis by (simp add: buffers_within_def)
next
  case (amp s1 s2 e)
  from read_pll_buffers [OF amp(1)] acquire_corr_buffers [where cfg = cfg and i = i and s = "avg_reset s1"] amp(2)
    update_amp_buffers [where cfg = cfg and i = i and s = s2] amp(3) assms(2)
  show ?thesis by (simp add: buffers_within_def)
next
  case (err s1 s2 s3)
  from read_pll_buffers [OF err(1)] acquire_corr_buffers [where cfg = cfg and i = i and s = "avg_reset s1"] err(2)
    update_amp_buffers [where cfg = cfg and i = i and s = s2] err(3) update_err_buffers [where cfg = cfg and i = i and s = s3] err(4) assms(2)
  show ?thesis by (simp add: buffers_within_def)
qed

lemma acquire_on_prefix:
  assumes "acquire cfg i s = (r, True, s')"
  shows "prefix_redpitaya cfg \<noteq> []"
  using assms by (cases rule: acquire_cases) (auto dest: read_pll_on_prefix)

lemma ex_acquire_high: "acquire ex_cfg ex_in_high ex_state = (None, True, ex_state_high)"
  by (simp add: acquire_def read_pll_def avg_reset_def acquire_corr_def update_amp_def
      update_err_def ex_cfg_def ex_in_high_def ex_state_def ex_state_high_def
      get_pv_def set_pv_def emit_caput_def push_def)




section \<open>The interlock decision\<close>




section \<open>Defaults of the gating constants\<close>

lemma truthy_opt_falsy: "\<not> truthy_opt v \<longleftrightarrow> v = None \<or> v = Some (Fin 0)"
  by (cases v rule: truthy_opt.cases) (auto elim: truthy.elims)

text \<open>
  C10. A gating constant whose process variable reads as absent or as exactly zero is
  replaced by the built-in default: 1.0 for the error threshold, 0.0 for the amplitude
  threshold, 0.1 for the tracking dead band and 0.01 for the tracking step. The violation
  counts of the interlock are then taken against the defaults, so a configured error
  threshold of zero counts the samples over 1.0.
\<close>

theorem falsy_constant_replaced:
  assumes "v = None \<or> v = Some (Fin 0)"
  shows "pll_err_tsh (s\<lparr>pvs := (pvs s)(''PLL_ERR_TSH'' := v)\<rparr>) = Fin 1
    \<and> laser_amp_tsh (s\<lparr>pvs := (pvs s)(''LASER_AMP_TSH'' := v)\<rparr>) = Fin 0
    \<and> tracking_tsh (s\<lparr>pvs := (pvs s)(''TRACKING_TSH'' := v)\<rparr>) = Fin (1 / 10)
    \<and> tracking_step (s\<lparr>pvs := (pvs s)(''TRACKING_STEP'' := v)\<rparr>) = Fin (1 / 100)
    \<and> err_count (s\<lparr>pvs := (pvs s)(''PLL_ERR_TSH'' := v)\<rparr>)
        = length (filter (\<lambda>e. fl_gt e (Fin 1)) (err_buff s))
    \<and> amp_count (s\<lparr>pvs := (pvs s)(''LASER_AMP_TSH'' := v)\<rparr>)
        = length (filter (\<lambda>a. fl_lt a (Fin 0)) (laser_amp_buff s))"
  using assms
  by (auto simp: pll_err_tsh_def laser_amp_tsh_def tracking_tsh_def tracking_step_def
      err_count_def amp_count_def py_or_def get_pv_def)

theorem falsy_constant_replaced_witness:
  "pll_err_tsh (ex_state\<lparr>pvs := (pvs ex_state)(''PLL_ERR_TSH'' := Some (Fin 0))\<rparr>) = Fin 1
   \<and> err_count (ex_state\<lparr>pvs := (pvs ex_state)(''PLL_ERR_TSH'' := Some (Fin 0))\<rparr>) = 1
   \<and> tracking_tsh (ex_state\<lparr>pvs := (pvs ex_state)(''TRACKING_TSH'' := Some (Fin 0))\<rparr>) = Fin (1 / 10)"
  using falsy_constant_replaced [of "Some (Fin 0)" ex_state]
  by (simp add: ex_state_def)

section \<open>What a cycle leaves unchanged\<close>

lemma interlock_fields:
  "err_buff (snd (interlock cfg p s)) = err_buff s"
  "laser_amp_buff (snd (interlock cfg p s)) = laser_amp_buff s"
  "corr_buff (snd (interlock cfg p s)) = corr_buff s"
  "cycle (snd (interlock cfg p s)) = cycle s"
  by (simp_all add: interlock_def pll_off_def logger_def emit_caput_def)

lemma tracking_fields:
  "err_buff (tracking cfg p s) = err_buff s"
  "laser_amp_buff (tracking cfg p s) = laser_amp_buff s"
  "corr_buff (tracking cfg p s) = corr_buff s"
  "cycle (tracking cfg p s) = cycle s"
  by (simp_all add: tracking_def Let_def set_pv_def set_message_def logger_def emit_caput_def)

lemma tracking_off:
  "tracking cfg False s = set_message ''PLL:OFF Track:OFF'' (set_pv ''TRACKING_ON'' (Fin 0) s)"
  by (simp add: tracking_def Let_def get_pv_def set_pv_def)

lemma process_cycle_None:
  "acquire cfg i s = (None, p, s4) \<Longrightarrow>
   process_cycle cfg i s =
     (None, tracking cfg (fst (interlock cfg p s4)) (snd (interlock cfg p s4)))"
  by (simp add: process_cycle_def split: prod.splits)

lemma process_cycle_Some:
  "acquire cfg i s = (Some e, p, s') \<Longrightarrow> process_cycle cfg i s = (Some e, s')"
  by (simp add: process_cycle_def)

lemma process_cycle_acquire:
  assumes "acquire cfg i s = (r, p, s4)"
  shows "fst (process_cycle cfg i s) = r"
    and "err_buff (snd (process_cycle cfg i s)) = err_buff s4"
    and "laser_amp_buff (snd (process_cycle cfg i s)) = laser_amp_buff s4"
    and "corr_buff (snd (process_cycle cfg i s)) = corr_buff s4"
    and "cycle (snd (process_cycle cfg i s)) = cycle s4"
  using assms
  by (cases r; simp add: process_cycle_None process_cycle_Some interlock_fields tracking_fields)+

lemma read_pll_cycle: "read_pll cfg i s = Inr (p, s1) \<Longrightarrow> cycle s1 = cycle s"
  by (auto simp: read_pll_def set_pv_def split: caget.splits sum.splits if_splits)

lemma avg_reset_cycle: "cycle (avg_reset s) = cycle s"
  by (simp add: avg_reset_def set_pv_def logger_def)

lemma acquire_corr_cycle: "cycle (snd (acquire_corr cfg i s)) = cycle s"
  by (simp add: acquire_corr_def Let_def set_pv_def emit_caput_def
      split: caget.splits option.splits sum.splits)

lemma update_amp_cycle: "cycle (snd (update_amp cfg i s)) = cycle s"
  by (simp add: update_amp_def split: caget.splits option.splits)

lemma update_err_cycle: "cycle (snd (update_err cfg i s)) = cycle s"
  by (simp add: update_err_def split: caget.splits option.splits sum.splits)

lemma acquire_cycle:
  assumes "acquire cfg i s = (r, p, s')"
  shows "cycle s' = cycle s"
  using assms
proof (cases rule: acquire_cases)
  case (pll e)
  then show ?thesis by simp
next
  case (corr s1 e)
  from read_pll_cycle [OF corr(1)] acquire_corr_cycle [of cfg i "avg_reset s1"] corr(2)
  show ?thesis by (simp add: avg_reset_cycle)
next
  case (amp s1 s2 e)
  from read_pll_cycle [OF amp(1)] acquire_corr_cycle [of cfg i "avg_reset s1"] amp(2)
    update_amp_cycle [of cfg i s2] amp(3)
  show ?thesis by (simp add: avg_reset_cycle)
next
  case (err s1 s2 s3)
  from read_pll_cycle [OF err(1)] acquire_corr_cycle [of cfg i "avg_reset s1"] err(2)
    update_amp_cycle [of cfg i s2] err(3) update_err_cycle [of cfg i s3] err(4)
  show ?thesis by (simp add: avg_reset_cycle)
qed

lemma process_cycle_cycle: "cycle (snd (process_cycle cfg i s)) = cycle s"
proof -
  obtain r p s4 where a: "acquire cfg i s = (r, p, s4)" by (cases "acquire cfg i s") auto
  from process_cycle_acquire(5) [OF a] acquire_cycle [OF a] show ?thesis by simp
qed

lemma client_writes_fields:
  "cycle (client_writes ws s) = cycle s"
  "status (client_writes ws s) = status s"
  "message (client_writes ws s) = message s"
  "logs (client_writes ws s) = logs s"
  by (induction ws arbitrary: s) (simp_all add: client_writes_def)

lemma client_writes_laser:
  "err_buff (client_writes ws s) = err_buff s"
  "laser_amp_buff (client_writes ws s) = laser_amp_buff s"
  "corr_buff (client_writes ws s) = corr_buff s"
  "caputs (client_writes ws s) = caputs s"
  by (induction ws arbitrary: s) (simp_all add: client_writes_def)

lemma ex_pll_raise:
  "process_cycle ex_cfg ex_in_pll_raise (client_writes [] ex_state)
     = (Some (OtherError ''timeout''), ex_state)"
  by (simp add: process_cycle_def acquire_def read_pll_def ex_cfg_def ex_in_pll_raise_def
      ex_in_high_def client_writes_def)

lemma ex_enabled: "truthy_opt (get_pv (client_writes [] ex_state) ''ENABLE'')"
  by (simp add: client_writes_def ex_state_def get_pv_def)

section \<open>Failures of a cycle\<close>

text \<open>
  C4. When \<^verbatim>\<open>_process_cycle\<close> raises in an iteration of an enabled task, \<^verbatim>\<open>run\<close> catches
  the exception: the status becomes \<open>ERROR\<close>, the message is \<open>Error: \<close> followed by the
  text of the exception, the cycle counter keeps its value, and the loop goes on with
  the remaining iterations from that state.
\<close>

theorem cycle_exception_caught:
  assumes "truthy_opt (get_pv (client_writes ws s) ''ENABLE'')"
    and "process_cycle cfg i (client_writes ws s) = (Some e, s')"
  shows "run cfg ((ws, i) # rest) s
       = run cfg rest (set_message (''Error: '' @ exc_str e) (set_status ''ERROR''
           (logger Error [Txt ''Error in processing cycle: '', Txt (exc_str e)] s')))
    \<and> status (run_iteration cfg i (client_writes ws s)) = ''ERROR''
    \<and> message (run_iteration cfg i (client_writes ws s)) = ''Error: '' @ exc_str e
    \<and> cycle (run_iteration cfg i (client_writes ws s)) = cycle s"
proof -
  from process_cycle_cycle [of cfg i "client_writes ws s"] assms(2)
  have "cycle s' = cycle s" by (simp add: client_writes_fields)
  with assms show ?thesis
    by (simp add: run_iteration_def set_message_def set_status_def logger_def)
qed


theorem cycle_exception_caught_witness:
  "run ex_cfg [([], ex_in_pll_raise)] ex_state
       = set_message ''Error: timeout'' (set_status ''ERROR''
           (logger Error [Txt ''Error in processing cycle: '', Txt ''timeout''] ex_state))
   \<and> status (run_iteration ex_cfg ex_in_pll_raise (client_writes [] ex_state)) = ''ERROR''
   \<and> cycle (run_iteration ex_cfg ex_in_pll_raise (client_writes [] ex_state)) = 0"
  using cycle_exception_caught [OF ex_enabled ex_pll_raise, of "[]"]
  by (simp add: ex_state_def set_message_def set_status_def logger_def)

section \<open>The buffer updates of a cycle\<close>

lemma update_amp_Some: "update_amp cfg i s = (Some e, s') \<Longrightarrow> s' = s"
  by (auto simp: update_amp_def split: caget.splits option.splits if_splits)

lemma update_err_Some:
  "update_err cfg i s = (Some e, s') \<Longrightarrow> s' = s \<and> err_read_raises cfg i"
  by (cases "wave_err_in i")
    (auto simp: update_err_def err_read_raises_def
      split: option.splits if_splits list.splits sum.splits elim: np_max.elims)

lemma update_amp_None:
  "update_amp cfg i s = (None, s') \<Longrightarrow>
   laser_amp_buff s' =
     (case laser_amp_in i of
        CaGot (Some a) \<Rightarrow>
          if pv_laser_amp_llrf cfg \<noteq> []
          then push (interlock_buff_length cfg) a (laser_amp_buff s) else laser_amp_buff s
      | CaGot None \<Rightarrow> laser_amp_buff s
      | CaRaise e \<Rightarrow> laser_amp_buff s)"
  by (auto simp: update_amp_def split: caget.splits option.splits if_splits)

lemma update_err_None:
  "update_err cfg i s = (None, s') \<Longrightarrow>
   err_buff s' =
     (case wave_err_in i of
        CaGot (Some w) \<Rightarrow>
          (case np_max w of
             Inr m \<Rightarrow> if prefix_redpitaya cfg \<noteq> []
                      then push (interlock_buff_length cfg) m (err_buff s) else err_buff s
           | Inl e \<Rightarrow> err_buff s)
      | CaGot None \<Rightarrow> err_buff s
      | CaRaise e \<Rightarrow> err_buff s)"
  by (auto simp: update_err_def split: caget.splits option.splits if_splits sum.splits)

lemma update_amp_absent:
  "laser_amp_in i = CaGot None \<Longrightarrow> update_amp cfg i s = (None, s)"
  by (simp add: update_amp_def)

lemma update_err_absent:
  "wave_err_in i = CaGot None \<Longrightarrow> update_err cfg i s = (None, s)"
  by (simp add: update_err_def)

text \<open>The buffers at the end of \<open>acquire\<close>, in terms of the buffers at its start.\<close>

lemma acquire_err_buff:
  assumes "acquire cfg i s = (r, p, s')"
  shows "err_buff s' = err_buff s \<or>
     (r = None \<and> prefix_redpitaya cfg \<noteq> [] \<and>
      (\<exists>w m. wave_err_in i = CaGot (Some w) \<and> np_max w = Inr m
         \<and> err_buff s' = push (interlock_buff_length cfg) m (err_buff s)))"
  using assms
proof (cases rule: acquire_cases)
  case (pll e)
  then show ?thesis by simp
next
  case (corr s1 e)
  from read_pll_buffers [OF corr(1)]
    acquire_corr_buffers [where cfg = cfg and i = i and s = "avg_reset s1"] corr(2)
  show ?thesis by simp
next
  case (amp s1 s2 e)
  from read_pll_buffers [OF amp(1)]
    acquire_corr_buffers [where cfg = cfg and i = i and s = "avg_reset s1"] amp(2)
    update_amp_Some [OF amp(3)]
  show ?thesis by simp
next
  case (err s1 s2 s3)
  from read_pll_buffers [OF err(1)]
    acquire_corr_buffers [where cfg = cfg and i = i and s = "avg_reset s1"] err(2)
    update_amp_buffers(1) [where cfg = cfg and i = i and s = s2] err(3)
  have b: "err_buff s3 = err_buff s" by simp
  show ?thesis
  proof (cases r)
    case None
    with err(4) update_err_None [of cfg i s3 s'] b show ?thesis
      by (auto split: caget.splits option.splits sum.splits if_splits)
  next
    case (Some e)
    with err(4) update_err_Some [of cfg i s3 e s'] b show ?thesis by simp
  qed
qed

lemma acquire_amp_buff:
  assumes "acquire cfg i s = (r, p, s')"
  shows "laser_amp_buff s' = laser_amp_buff s \<or>
     ((r = None \<or> err_read_raises cfg i) \<and> pv_laser_amp_llrf cfg \<noteq> [] \<and>
      (\<exists>a. laser_amp_in i = CaGot (Some a)
         \<and> laser_amp_buff s' = push (interlock_buff_length cfg) a (laser_amp_buff s)))"
  using assms
proof (cases rule: acquire_cases)
  case (pll e)
  then show ?thesis by simp
next
  case (corr s1 e)
  from read_pll_buffers [OF corr(1)]
    acquire_corr_buffers [where cfg = cfg and i = i and s = "avg_reset s1"] corr(2)
  show ?thesis by simp
next
  case (amp s1 s2 e)
  from read_pll_buffers [OF amp(1)]
    acquire_corr_buffers [where cfg = cfg and i = i and s = "avg_reset s1"] amp(2)
    update_amp_Some [OF amp(3)]
  show ?thesis by simp
next
  case (err s1 s2 s3)
  from read_pll_buffers [OF err(1)]
    acquire_corr_buffers [where cfg = cfg and i = i and s = "avg_reset s1"] err(2)
  have b: "laser_amp_buff s2 = laser_amp_buff s" by simp
  from update_err_buffers(1) [where cfg = cfg and i = i and s = s3] err(4)
  have c: "laser_amp_buff s' = laser_amp_buff s3" by simp
  have d: "r = None \<or> err_read_raises cfg i"
    using err(4) update_err_Some [of cfg i s3 _ s'] by (cases r) auto
  from update_amp_None [OF err(3)] b c d show ?thesis
    by (auto split: caget.splits option.splits if_splits)
qed

lemma ex_enabled0: "truthy_opt (get_pv ex_state ''ENABLE'')"
  by (simp add: ex_state_def get_pv_def)

lemma ex_pll_raise0: "fst (process_cycle ex_cfg ex_in_pll_raise ex_state) = Some (OtherError ''timeout'')"
  by (simp add: process_cycle_def acquire_def read_pll_def ex_cfg_def ex_in_pll_raise_def
      ex_in_high_def)

section \<open>A cycle whose acquisition raises\<close>

text \<open>
  C5, as the code has it. A cycle of an enabled task in which a read raises does not
  step the cycle counter and leaves the error buffer as it was. The amplitude buffer is
  as it was unless the raise came from the error read, which follows the amplitude
  update. When the first read (the PLL status) raises, the whole state is as before the
  cycle. There is no rollback: what was appended before the raising read stays appended.
\<close>

theorem failed_cycle_state:
  assumes "truthy_opt (get_pv s ''ENABLE'')" and "fst (process_cycle cfg i s) = Some e"
  shows "cycle (run_iteration cfg i s) = cycle s
     \<and> err_buff (run_iteration cfg i s) = err_buff s
     \<and> (\<not> err_read_raises cfg i \<longrightarrow>
          laser_amp_buff (run_iteration cfg i s) = laser_amp_buff s)
     \<and> (prefix_redpitaya cfg \<noteq> [] \<and> pll_status_in i = CaRaise e \<longrightarrow>
          process_cycle cfg i s = (Some e, s))"
proof -
  obtain r p s' where a: "acquire cfg i s = (r, p, s')" by (cases "acquire cfg i s") auto
  from process_cycle_acquire(1) [OF a] assms(2) have r: "r = Some e" by simp
  with a have pc: "process_cycle cfg i s = (Some e, s')" by (simp add: process_cycle_Some)
  with assms(1) have ri: "run_iteration cfg i s =
      set_message (''Error: '' @ exc_str e) (set_status ''ERROR''
        (logger Error [Txt ''Error in processing cycle: '', Txt (exc_str e)] s'))"
    by (simp add: run_iteration_def)
  have 1: "cycle (run_iteration cfg i s) = cycle s"
    using acquire_cycle [OF a] by (simp add: ri set_message_def set_status_def logger_def)
  have 2: "err_buff (run_iteration cfg i s) = err_buff s"
    using acquire_err_buff [OF a] r by (simp add: ri set_message_def set_status_def logger_def)
  have 3: "\<not> err_read_raises cfg i \<longrightarrow> laser_amp_buff (run_iteration cfg i s) = laser_amp_buff s"
    using acquire_amp_buff [OF a] r by (auto simp: ri set_message_def set_status_def logger_def)
  have 4: "prefix_redpitaya cfg \<noteq> [] \<and> pll_status_in i = CaRaise e \<longrightarrow>
          process_cycle cfg i s = (Some e, s)"
    by (simp add: process_cycle_def acquire_def read_pll_def)
  from 1 2 3 4 show ?thesis by blast
qed

theorem failed_cycle_state_witness:
  "cycle (run_iteration ex_cfg ex_in_pll_raise ex_state) = 0
   \<and> err_buff (run_iteration ex_cfg ex_in_pll_raise ex_state) = [Fin 2]
   \<and> laser_amp_buff (run_iteration ex_cfg ex_in_pll_raise ex_state) = []
   \<and> process_cycle ex_cfg ex_in_pll_raise ex_state = (Some (OtherError ''timeout''), ex_state)"
  using failed_cycle_state [OF ex_enabled0 ex_pll_raise0]
  by (simp add: ex_state_def ex_cfg_def ex_in_pll_raise_def ex_in_high_def err_read_raises_def)

text \<open>
  The claim as stated fails on a cycle whose last read raises: the counter keeps its
  value, but the amplitude buffer and the correction buffer have each gained the sample
  read earlier in the cycle.
\<close>

theorem failed_cycle_keeps_samples_counterexample:
  "truthy_opt (get_pv ex_state ''ENABLE'')
   \<and> fst (process_cycle ex_cfg ex_in_err_raise ex_state) = Some (OtherError ''timeout'')
   \<and> cycle (run_iteration ex_cfg ex_in_err_raise ex_state) = cycle ex_state
   \<and> laser_amp_buff ex_state = []
   \<and> laser_amp_buff (run_iteration ex_cfg ex_in_err_raise ex_state) = [Fin 5]
   \<and> corr_buff ex_state = []
   \<and> corr_buff (run_iteration ex_cfg ex_in_err_raise ex_state) = [Fin 2]"
  by (simp add: ex_cfg_def ex_state_def ex_in_err_raise_def run_iteration_def
      process_cycle_def acquire_def read_pll_def avg_reset_def acquire_corr_def
      update_amp_def update_err_def py_or_def py_slice_def slice_index_def np_mean_def
      get_pv_def set_pv_def set_message_def set_status_def logger_def emit_caput_def push_def
      Let_def)

lemma acquire_None_buffers:
  assumes "acquire cfg i s = (None, p, s')"
  shows "laser_amp_buff s' =
     (case laser_amp_in i of
        CaGot (Some a) \<Rightarrow>
          if pv_laser_amp_llrf cfg \<noteq> []
          then push (interlock_buff_length cfg) a (laser_amp_buff s) else laser_amp_buff s
      | CaGot None \<Rightarrow> laser_amp_buff s
      | CaRaise e \<Rightarrow> laser_amp_buff s)
    \<and> err_buff s' =
     (case wave_err_in i of
        CaGot (Some w) \<Rightarrow>
          (case np_max w of
             Inr m \<Rightarrow> if prefix_redpitaya cfg \<noteq> []
                      then push (interlock_buff_length cfg) m (err_buff s) else err_buff s
           | Inl e \<Rightarrow> err_buff s)
      | CaGot None \<Rightarrow> err_buff s
      | CaRaise e \<Rightarrow> err_buff s)
    \<and> (prefix_redpitaya cfg \<noteq> [] \<longrightarrow> (\<forall>w. wave_err_in i = CaGot (Some w) \<longrightarrow>
          (\<exists>m. np_max w = Inr m)))"
  using assms
proof (cases rule: acquire_cases)
  case (err s1 s2 s3)
  from read_pll_buffers [OF err(1)]
    acquire_corr_buffers [where cfg = cfg and i = i and s = "avg_reset s1"] err(2)
  have b: "laser_amp_buff s2 = laser_amp_buff s" "err_buff s2 = err_buff s" by simp_all
  from update_err_buffers(1) [where cfg = cfg and i = i and s = s3] err(4)
  have c: "laser_amp_buff s' = laser_amp_buff s3" by simp
  from update_amp_buffers(1) [where cfg = cfg and i = i and s = s2] err(3)
  have d: "err_buff s3 = err_buff s2" by simp
  have e: "prefix_redpitaya cfg \<noteq> [] \<longrightarrow> (\<forall>w. wave_err_in i = CaGot (Some w) \<longrightarrow>
          (\<exists>m. np_max w = Inr m))"
    using err(4) by (auto simp: update_err_def split: sum.splits)
  from update_amp_None [OF err(3)] update_err_None [OF err(4)] b c d e
  show ?thesis by (simp split: caget.splits option.splits sum.splits)
qed simp_all

lemma ex_cycle_high: "process_cycle ex_cfg ex_in_high ex_state = (None, ex_state_tripped)"
  unfolding process_cycle_None [OF ex_acquire_high]
  by (simp add: interlock_def tracking_def pll_off_def
      err_count_def amp_count_def pll_err_tsh_def laser_amp_tsh_def ex_state_tripped_def
      ex_state_high_def ex_state_def ex_cfg_def py_or_def get_pv_def set_pv_def
      set_message_def logger_def emit_caput_def Let_def)

lemma ex_cycle_amp_only:
  "fst (process_cycle ex_cfg ex_in_amp_only ex_state) = None"
  by (simp add: process_cycle_def acquire_def read_pll_def avg_reset_def acquire_corr_def
      update_amp_def update_err_def ex_cfg_def ex_in_amp_only_def ex_state_def
      get_pv_def set_pv_def emit_caput_def push_def split: prod.splits)

section \<open>A sample that is not available\<close>

text \<open>
  C6. When the amplitude read returns \<open>None\<close>, the amplitude buffer after the cycle is
  the buffer before it; likewise for the error read and the error buffer: nothing is
  appended in place of the missing sample. In a cycle that returns normally the other
  buffer is still updated: an amplitude that was read is pushed into the amplitude
  buffer, and the maximum of an error waveform that was read is pushed into the error
  buffer.
\<close>

theorem absent_sample_leaves_buffer:
  "(laser_amp_in i = CaGot None \<longrightarrow>
      laser_amp_buff (snd (process_cycle cfg i s)) = laser_amp_buff s)
   \<and> (wave_err_in i = CaGot None \<longrightarrow>
      err_buff (snd (process_cycle cfg i s)) = err_buff s)
   \<and> (fst (process_cycle cfg i s) = None \<and> pv_laser_amp_llrf cfg \<noteq> []
        \<and> laser_amp_in i = CaGot (Some a) \<longrightarrow>
      laser_amp_buff (snd (process_cycle cfg i s))
        = push (interlock_buff_length cfg) a (laser_amp_buff s))
   \<and> (fst (process_cycle cfg i s) = None \<and> prefix_redpitaya cfg \<noteq> []
        \<and> wave_err_in i = CaGot (Some w) \<longrightarrow>
      (\<exists>m. np_max w = Inr m
         \<and> err_buff (snd (process_cycle cfg i s))
             = push (interlock_buff_length cfg) m (err_buff s)))"
proof -
  obtain r p s' where a: "acquire cfg i s = (r, p, s')" by (cases "acquire cfg i s") auto
  note pc = process_cycle_acquire [OF a]
  have 1: "laser_amp_in i = CaGot None \<longrightarrow>
      laser_amp_buff (snd (process_cycle cfg i s)) = laser_amp_buff s"
    using acquire_amp_buff [OF a] pc(3) by auto
  have 2: "wave_err_in i = CaGot None \<longrightarrow>
      err_buff (snd (process_cycle cfg i s)) = err_buff s"
    using acquire_err_buff [OF a] pc(2) by auto
  have 3: "fst (process_cycle cfg i s) = None \<and> pv_laser_amp_llrf cfg \<noteq> []
        \<and> laser_amp_in i = CaGot (Some a) \<longrightarrow>
      laser_amp_buff (snd (process_cycle cfg i s))
        = push (interlock_buff_length cfg) a (laser_amp_buff s)"
    using acquire_None_buffers [of cfg i s p s'] a pc(1,3) by auto
  have 4: "fst (process_cycle cfg i s) = None \<and> prefix_redpitaya cfg \<noteq> []
        \<and> wave_err_in i = CaGot (Some w) \<longrightarrow>
      (\<exists>m. np_max w = Inr m
         \<and> err_buff (snd (process_cycle cfg i s))
             = push (interlock_buff_length cfg) m (err_buff s))"
    using acquire_None_buffers [of cfg i s p s'] a pc(1,2) by auto
  from 1 2 3 4 show ?thesis by blast
qed

theorem absent_sample_leaves_buffer_witness:
  "laser_amp_buff (snd (process_cycle ex_cfg ex_in_high ex_state)) = []
   \<and> err_buff (snd (process_cycle ex_cfg ex_in_high ex_state)) = [Fin 2, Fin 3]
   \<and> err_buff (snd (process_cycle ex_cfg ex_in_amp_only ex_state)) = [Fin 2]
   \<and> laser_amp_buff (snd (process_cycle ex_cfg ex_in_amp_only ex_state)) = [Fin 5]"
  using absent_sample_leaves_buffer [of ex_in_high ex_cfg ex_state "Fin 0" "[Fin (3 / 2), Fin 3]"]
    absent_sample_leaves_buffer [of ex_in_amp_only ex_cfg ex_state "Fin 5" "[]"]
    ex_cycle_high ex_cycle_amp_only
  by (simp add: ex_in_high_def ex_in_amp_only_def ex_cfg_def ex_state_def ex_state_tripped_def
      ex_state_high_def push_def)

section \<open>The commands of a cycle\<close>











section \<open>The interlock over several cycles\<close>




section \<open>The motor movement callback\<close>

lemma fold_set_switch:
  "switch_sets (fold set_switch sws s) = switch_sets s @ map (\<lambda>sw. (fst sw, 0)) sws"
proof (induction sws arbitrary: s)
  case Nil
  show ?case by simp
next
  case (Cons sw sws)
  have "switch_sets (set_switch sw s) = switch_sets s @ [(fst sw, 0)]"
    by (simp add: set_switch_def Let_def logger_def split: option.splits)
  with Cons.IH [of "set_switch sw s"] show ?case by simp
qed

text \<open>
  C9, as the code has it. The callback is guarded by \<^verbatim>\<open>get_cycle() > 10\<close>. While the
  counter is at most 10 a notification changes nothing: no log record and no call of
  \<^verbatim>\<open>set\<close>. Once the counter is greater than 10 every notification is logged, and when
  the task is enabled \<^verbatim>\<open>set(0)\<close> is called on every switch-off device, in the order of
  the dict; when the task is not enabled only the log record is written.
\<close>

theorem motor_callback_threshold:
  "(get_cycle s \<le> 10 \<longrightarrow> motor_moved_callback n p s = s)
   \<and> (10 < get_cycle s \<and> \<not> truthy_opt (get_pv s ''ENABLE'') \<longrightarrow>
        motor_moved_callback n p s
          = logger Info [Txt ''Motor '', Txt n, Txt '' moved to position '', Txt p] s)
   \<and> (10 < get_cycle s \<and> truthy_opt (get_pv s ''ENABLE'') \<longrightarrow>
        motor_moved_callback n p s
          = fold set_switch (switches s)
              (logger Info [Txt ''Motor '', Txt n, Txt '' moved to position '', Txt p] s)
        \<and> switch_sets (motor_moved_callback n p s)
          = switch_sets s @ map (\<lambda>sw. (fst sw, 0)) (switches s))"
proof -
  let ?s1 = "logger Info [Txt ''Motor '', Txt n, Txt '' moved to position '', Txt p] s"
  have l: "get_pv ?s1 ''ENABLE'' = get_pv s ''ENABLE''" "switches ?s1 = switches s"
    "switch_sets ?s1 = switch_sets s"
    by (simp_all add: logger_def get_pv_def)
  have 1: "get_cycle s \<le> 10 \<longrightarrow> motor_moved_callback n p s = s"
    by (simp add: motor_moved_callback_def)
  have 2: "10 < get_cycle s \<and> \<not> truthy_opt (get_pv s ''ENABLE'') \<longrightarrow>
        motor_moved_callback n p s = ?s1"
    by (simp add: motor_moved_callback_def Let_def l)
  have 3: "10 < get_cycle s \<and> truthy_opt (get_pv s ''ENABLE'') \<longrightarrow>
        motor_moved_callback n p s = fold set_switch (switches s) ?s1"
    by (simp add: motor_moved_callback_def Let_def l)
  from 3 have 4: "10 < get_cycle s \<and> truthy_opt (get_pv s ''ENABLE'') \<longrightarrow>
        switch_sets (motor_moved_callback n p s)
          = switch_sets s @ map (\<lambda>sw. (fst sw, 0)) (switches s)"
    by (simp add: fold_set_switch l)
  from 1 2 3 4 show ?thesis by blast
qed

theorem motor_callback_threshold_witness:
  "switch_sets (motor_moved_callback ''m1'' ''1.5'' (ex_motor_state\<lparr>cycle := 11\<rparr>))
     = [(''shutter'', 0)]
   \<and> motor_moved_callback ''m1'' ''1.5'' (ex_motor_state\<lparr>cycle := 3\<rparr>)
     = ex_motor_state\<lparr>cycle := 3\<rparr>
   \<and> motor_moved_callback ''m1'' ''1.5'' (ex_motor_state\<lparr>cycle := 11, pvs := (\<lambda>n. None)\<rparr>)
     = ex_motor_state\<lparr>cycle := 11, pvs := (\<lambda>n. None),
         logs := [(Info, [Txt ''Motor '', Txt ''m1'', Txt '' moved to position '', Txt ''1.5''])]\<rparr>"
  using motor_callback_threshold [of "ex_motor_state\<lparr>cycle := 11\<rparr>" "''m1''" "''1.5''"]
    motor_callback_threshold [of "ex_motor_state\<lparr>cycle := 3\<rparr>" "''m1''" "''1.5''"]
    motor_callback_threshold [of "ex_motor_state\<lparr>cycle := 11, pvs := (\<lambda>n. None)\<rparr>" "''m1''" "''1.5''"]
  by (simp add: ex_motor_state_def get_cycle_def get_pv_def set_switch_def logger_def)

text \<open>
  The claim as stated fails right after the tenth cycle: \<^verbatim>\<open>run\<close> steps the counter once
  at the end of each enabled cycle, so after ten cycles of a task that started at zero
  the counter is 10, and a notification for an enabled task with a switch-off device is
  still ignored.
\<close>

theorem motor_callback_tenth_cycle_counterexample:
  "get_cycle ((step_cycle ^^ 10) ex_motor_state) = 10
   \<and> truthy_opt (get_pv ((step_cycle ^^ 10) ex_motor_state) ''ENABLE'')
   \<and> switches ((step_cycle ^^ 10) ex_motor_state) = [(''shutter'', None)]
   \<and> motor_moved_callback ''m1'' ''1.5'' ((step_cycle ^^ 10) ex_motor_state)
       = (step_cycle ^^ 10) ex_motor_state
   \<and> logs (motor_moved_callback ''m1'' ''1.5'' ((step_cycle ^^ 10) ex_motor_state)) = []
   \<and> switch_sets (motor_moved_callback ''m1'' ''1.5'' ((step_cycle ^^ 10) ex_motor_state)) = []"
  by (simp add: eval_nat_numeral step_cycle_def ex_motor_state_def get_cycle_def get_pv_def
      motor_moved_callback_def)

section \<open>A sustained fault\<close>










lemma client_writes_within:
  "buffers_within cfg (client_writes ws s) = buffers_within cfg s"
  by (simp add: buffers_within_def client_writes_laser)











section \<open>Tracking\<close>

lemma motor_step_abs: "fl_abs (motor_step s) = fl_abs (tracking_step s)"
  by (cases "tracking_step s") (simp_all add: motor_step_def)

lemma motor_step_sign:
  assumes "fl_gt (tracking_step s) (Fin 0)"
    and "fl_gt (fl_abs (corr_avg_of s)) (tracking_tsh s)"
    and "\<not> fl_lt (tracking_tsh s) (Fin 0)"
  shows "fl_gt (motor_step s) (Fin 0) = fl_gt (corr_avg_of s) (Fin 0)
     \<and> fl_lt (motor_step s) (Fin 0) = fl_lt (corr_avg_of s) (Fin 0)"
proof -
  from assms(1) obtain r where r: "tracking_step s = Fin r" "0 < r"
    by (cases "tracking_step s") auto
  from assms(2) obtain c t where c: "corr_avg_of s = Fin c" "tracking_tsh s = Fin t" "t < \<bar>c\<bar>"
    by (cases "corr_avg_of s"; cases "tracking_tsh s") auto
  with assms(3) have "c \<noteq> 0" by auto
  with r c show ?thesis by (auto simp: motor_step_def)
qed

lemma tripped_cycle_caputs:
  assumes "acquire cfg i s = (None, p, s4)" and "tripped cfg i s"
  shows "caputs (snd (process_cycle cfg i s))
       = caputs s4 @ [(prefix_redpitaya cfg @ '':DIGITAL_P4_STATE_CMD'', CStr ''0'')]"
proof -
  from assms(2) have p: "p" and f: "\<not> fst (interlock cfg p s4)"
    unfolding tripped_def assms(1) by auto
  from p have pt: "p = True" by simp
  from assms(1) have pre: "prefix_redpitaya cfg \<noteq> []"
    unfolding pt by (rule acquire_on_prefix)
  from p f have "interlock cfg p s4 = (False, pll_off cfg s4)"
    by (auto simp: interlock_def split: if_splits)
  with assms(1) have "process_cycle cfg i s = (None, tracking cfg False (pll_off cfg s4))"
    by (simp add: process_cycle_None)
  with pre show ?thesis
    by (simp add: tracking_off set_message_def set_pv_def pll_off_def logger_def emit_caput_def)
qed

lemma ex_tripped_high: "tripped ex_cfg ex_in_high ex_state"
  unfolding tripped_def ex_acquire_high
  by (simp add: interlock_def err_count_def pll_err_tsh_def py_or_def get_pv_def
      ex_state_high_def ex_state_def ex_cfg_def)

text \<open>
  C3, as the code has it. The tracking part of the cycle (lines 165-182) issues a motor
  command only if \<^verbatim>\<open>pll_on\<close> is still true after the interlock (the subsystem is on and
  the interlock did not trip), tracking is enabled, a motor prefix is configured and the
  absolute value of the averaged correction is strictly greater than the dead band; it
  then issues exactly one command \<^verbatim>\<open>m0.RLV\<close> with the tracking step when the correction
  is positive and with its negation otherwise. The magnitude of the command is that of
  the tracking step; for a positive step and a dead band that is not negative its sign is
  the sign of the correction. At the boundary (absolute value equal to the dead band)
  nothing is issued. Correction, dead band and step are the values as read with their
  defaults. In a cycle that trips the interlock the switch-off is the last command: no
  motor command follows it.
\<close>

theorem tracking_step_rule:
  "caputs (tracking cfg pll_on s) =
     caputs s @
       (if pll_on \<and> truthy_opt (get_pv s ''TRACKING_ON'') \<and> prefix_motor cfg \<noteq> []
           \<and> fl_gt (fl_abs (corr_avg_of s)) (tracking_tsh s)
        then [(prefix_motor cfg @ '':m0.RLV'', CStrOf (motor_step s))] else [])
   \<and> motor_step s = (if fl_gt (corr_avg_of s) (Fin 0) then tracking_step s
                      else fl_neg (tracking_step s))
   \<and> fl_abs (motor_step s) = fl_abs (tracking_step s)
   \<and> (fl_gt (tracking_step s) (Fin 0) \<and> \<not> fl_lt (tracking_tsh s) (Fin 0)
        \<and> fl_gt (fl_abs (corr_avg_of s)) (tracking_tsh s) \<longrightarrow>
        fl_gt (motor_step s) (Fin 0) = fl_gt (corr_avg_of s) (Fin 0)
        \<and> fl_lt (motor_step s) (Fin 0) = fl_lt (corr_avg_of s) (Fin 0))
   \<and> (fl_abs (corr_avg_of s) = tracking_tsh s \<longrightarrow> caputs (tracking cfg pll_on s) = caputs s)
   \<and> (acquire cfg i s0 = (None, p, s4) \<and> tripped cfg i s0 \<longrightarrow>
        caputs (snd (process_cycle cfg i s0))
          = caputs s4 @ [(prefix_redpitaya cfg @ '':DIGITAL_P4_STATE_CMD'', CStr ''0'')])"
proof -
  have nogt: "fl_abs (corr_avg_of s) = tracking_tsh s \<Longrightarrow>
      \<not> fl_gt (fl_abs (corr_avg_of s)) (tracking_tsh s)"
    by (cases "tracking_tsh s") auto
  have 1: "caputs (tracking cfg pll_on s) =
     caputs s @
       (if pll_on \<and> truthy_opt (get_pv s ''TRACKING_ON'') \<and> prefix_motor cfg \<noteq> []
           \<and> fl_gt (fl_abs (corr_avg_of s)) (tracking_tsh s)
        then [(prefix_motor cfg @ '':m0.RLV'', CStrOf (motor_step s))] else [])"
    by (simp add: tracking_def Let_def get_pv_def set_pv_def set_message_def logger_def
        emit_caput_def)
  have 2: "motor_step s = (if fl_gt (corr_avg_of s) (Fin 0) then tracking_step s
                      else fl_neg (tracking_step s))"
    by (simp add: motor_step_def)
  from 1 nogt have 5: "fl_abs (corr_avg_of s) = tracking_tsh s \<longrightarrow>
      caputs (tracking cfg pll_on s) = caputs s"
    by simp
  from 1 2 5 motor_step_abs [of s] motor_step_sign [of s]
    tripped_cycle_caputs [of cfg i s0 p s4]
  show ?thesis by blast
qed

theorem tracking_step_rule_witness:
  "caputs (tracking ex_cfg True ex_state_corr) = [(''MOT:m0.RLV'', CStrOf (Fin (1 / 100)))]
   \<and> fl_gt (motor_step ex_state_corr) (Fin 0)
   \<and> caputs (tracking ex_cfg True ex_state_edge) = []
   \<and> caputs (snd (process_cycle ex_cfg ex_in_high ex_state))
       = [(''RP:START_SS_ACQ_CMD'', CInt 1), (''RP:DIGITAL_P4_STATE_CMD'', CStr ''0'')]"
  using tracking_step_rule [of ex_cfg True ex_state_corr ex_in_high ex_state True ex_state_high]
    tracking_step_rule [of ex_cfg True ex_state_edge]
    ex_acquire_high ex_tripped_high
  by (simp add: ex_cfg_def ex_state_corr_def ex_state_edge_def ex_state_def ex_state_high_def
      get_pv_def corr_avg_of_def tracking_tsh_def tracking_step_def py_or_def motor_step_def)

text \<open>
  The claim as stated fails where no motor prefix is configured: tracking is on, the PLL
  is on, the correction 5.0 is outside the dead band 0.1, and no step is issued.
\<close>

theorem tracking_without_motor_counterexample:
  "truthy_opt (get_pv ex_state_corr ''TRACKING_ON'')
   \<and> fl_gt (fl_abs (corr_avg_of ex_state_corr)) (tracking_tsh ex_state_corr)
   \<and> caputs (tracking ex_cfg_no_motor True ex_state_corr) = caputs ex_state_corr
   \<and> fst (process_cycle ex_cfg_no_motor ex_in_low ex_state_corr) = None
   \<and> \<not> tripped ex_cfg_no_motor ex_in_low ex_state_corr
   \<and> message (snd (process_cycle ex_cfg_no_motor ex_in_low ex_state_corr)) = ''PLL:ON Track:ON''
   \<and> caputs (snd (process_cycle ex_cfg_no_motor ex_in_low ex_state_corr))
       = [(''RP:START_SS_ACQ_CMD'', CInt 1)]"
  by (simp add: ex_cfg_no_motor_def ex_cfg_def ex_state_corr_def ex_state_def ex_in_low_def
      tripped_def process_cycle_def acquire_def read_pll_def avg_reset_def acquire_corr_def
      update_amp_def update_err_def interlock_def tracking_def err_count_def amp_count_def
      pll_err_tsh_def laser_amp_tsh_def corr_avg_of_def tracking_tsh_def tracking_step_def
      py_or_def get_pv_def set_pv_def set_message_def logger_def emit_caput_def push_def
      Let_def)

section \<open>The interlock buffers stay within their length\<close>

lemma initialize_within:
  "0 \<le> interlock_buff_length cfg \<Longrightarrow> buffers_within cfg (initialize cfg s)"
  by (simp add: initialize_def buffers_within_def Let_def logger_def init_redpitaya_def
      init_motor_def emit_caput_def)

lemma process_cycle_within:
  assumes "buffers_within cfg s"
  shows "buffers_within cfg (snd (process_cycle cfg i s))"
proof -
  obtain r p s4 where a: "acquire cfg i s = (r, p, s4)" by (cases "acquire cfg i s") auto
  from acquire_buffers_within [OF a assms] process_cycle_acquire(2,3) [OF a]
  show ?thesis by (simp add: buffers_within_def)
qed

lemma run_iteration_within:
  assumes "buffers_within cfg s"
  shows "buffers_within cfg (run_iteration cfg i s)"
  using process_cycle_within [OF assms, of i] assms
  by (cases "process_cycle cfg i s")
    (auto simp: run_iteration_def buffers_within_def logger_def step_cycle_def
      set_message_def set_status_def split: option.splits)

lemma run_within: "buffers_within cfg s \<Longrightarrow> buffers_within cfg (run cfg xs s)"
  by (induction xs arbitrary: s) (simp_all add: run_iteration_within client_writes_within)

end
